theory Spec2Isabelle
  imports Complex_Main
begin

section \<open>Batch visual comparison: tests/automated-screenshot-comparison.test.ts\<close>

subsection \<open>Data model\<close>

text \<open>
  A value that a JavaScript \<^verbatim>\<open>throw\<close> can carry: an \<^verbatim>\<open>Error\<close> instance with its
  \<^verbatim>\<open>name\<close> and \<^verbatim>\<open>message\<close>, or any other value, kept as the text that
  \<^verbatim>\<open>String(value)\<close> gives.
\<close>

datatype thrown = JsError string string | JsOther string

text \<open>\<^verbatim>\<open>error instanceof Error ? error.message : String(error)\<close>\<close>

fun thrown_message :: "thrown \<Rightarrow> string" where
  "thrown_message (JsError nm msg) = msg"
| "thrown_message (JsOther txt) = txt"

text \<open>
  The template-literal conversion \<^verbatim>\<open>${error}\<close>: \<^verbatim>\<open>Error.prototype.toString\<close> for an
  \<^verbatim>\<open>Error\<close> instance, \<^verbatim>\<open>String(value)\<close> otherwise.
\<close>

fun thrown_text :: "thrown \<Rightarrow> string" where
  "thrown_text (JsError nm msg) =
     (if nm = [] then msg else if msg = [] then nm else nm @ '': '' @ msg)"
| "thrown_text (JsOther txt) = txt"

text \<open>\<^verbatim>\<open>interface UrlEntry\<close>\<close>

record UrlEntry =
  url :: string
  name :: string

text \<open>
  The object that \<^verbatim>\<open>eyes.close()\<close> resolves to (\<^verbatim>\<open>TestResults\<close> of the SDK), read through
  its getters. The numbers are JavaScript numbers; the driver only adds them, so they are
  integers here and may be negative.
\<close>

record TestResults =
  getStatus :: string
  getUrl :: string
  getSteps :: int
  getMatches :: int
  getMismatches :: int
  getMissing :: int

text \<open>\<^verbatim>\<open>interface ComparisonResult\<close>; the optional fields are options.\<close>

record ComparisonResult =
  r_url :: string
  testName :: string
  status :: string
  appUrl :: "string option"
  stepsInfo :: int
  matches :: int
  mismatches :: int
  missing :: int
  success :: bool
  error :: "string option"

text \<open>
  \<^verbatim>\<open>interface TestSummary\<close> without its three clock fields (\<^verbatim>\<open>startTime\<close>,
  \<^verbatim>\<open>endTime\<close>, \<^verbatim>\<open>duration\<close>), which no counter depends on.
\<close>

record TestSummary =
  totalUrls :: int
  successfulComparisons :: int
  failedComparisons :: int
  totalMatches :: int
  totalMismatches :: int
  totalMissing :: int
  errors :: "string list"
  eyesResults :: "ComparisonResult list"

subsection \<open>Reading the CSV file\<close>

text \<open>
  A row as \<^verbatim>\<open>csv-parser\<close> hands it to the \<^verbatim>\<open>data\<close> handler: an object from column
  names to strings, a column the row lacks being \<^verbatim>\<open>undefined\<close>.
\<close>

type_synonym csv_row = "string \<rightharpoonup> string"

text \<open>Truthiness of a property that is a string or \<^verbatim>\<open>undefined\<close>.\<close>

fun truthy :: "string option \<Rightarrow> bool" where
  "truthy None = False"
| "truthy (Some s) = (s \<noteq> [])"

text \<open>
  The \<^verbatim>\<open>data\<close> handler of \<^verbatim>\<open>readCsvFile\<close>:
  \<^verbatim>\<open>if (data.url && data.name) results.push({ url: data.url, name: data.name })\<close>.
\<close>

definition on_data :: "csv_row \<Rightarrow> UrlEntry list \<Rightarrow> UrlEntry list" where
  "on_data data results =
     (if truthy (data ''url'') \<and> truthy (data ''name'')
      then results @ [\<lparr>url = the (data ''url''), name = the (data ''name'')\<rparr>]
      else results)"

text \<open>
  What the parser stream emits: its \<^verbatim>\<open>data\<close> events in file order, then \<^verbatim>\<open>end\<close>
  (\<open>None\<close>) or \<^verbatim>\<open>error\<close> (\<open>Some e\<close>).
\<close>

type_synonym csv_stream = "csv_row list \<times> thrown option"

text \<open>
  \<^verbatim>\<open>readCsvFile\<close>: the promise resolves with \<^verbatim>\<open>results\<close> on \<^verbatim>\<open>end\<close> and rejects on
  \<^verbatim>\<open>error\<close>.
\<close>

definition readCsvFile :: "csv_stream \<Rightarrow> thrown + UrlEntry list" where
  "readCsvFile src =
     (case snd src of
        Some e \<Rightarrow> Inl e
      | None \<Rightarrow> Inr (fold on_data (fst src) []))"

subsection \<open>The collaborators\<close>

text \<open>
  The browser page and the Eyes client are foreign objects. Their behaviour is a parameter:
  an arbitrary world \<open>'w\<close> that every call may read and change, each call either returning
  (\<open>None\<close>, or \<open>Inr\<close> with its value) or throwing (\<open>Some x\<close>, \<open>Inl x\<close>).
  \<open>pageUnusable\<close> is the test \<^verbatim>\<open>!localPage || localPage.isClosed()\<close>;
  \<open>eyesClose\<close> resolves to a results object or to \<^verbatim>\<open>null\<close>/\<^verbatim>\<open>undefined\<close>
  (\<open>None\<close>).
\<close>

record 'w collaborators =
  pageUnusable :: "'w \<Rightarrow> bool"
  newPage :: "'w \<Rightarrow> thrown option \<times> 'w"
  setViewportSize :: "'w \<Rightarrow> thrown option \<times> 'w"
  eyesOpen :: "string \<Rightarrow> 'w \<Rightarrow> thrown option \<times> 'w"
  goto :: "string \<Rightarrow> 'w \<Rightarrow> thrown option \<times> 'w"
  waitForTimeout :: "'w \<Rightarrow> thrown option \<times> 'w"
  eyesCheck :: "string \<Rightarrow> 'w \<Rightarrow> thrown option \<times> 'w"
  eyesClose :: "'w \<Rightarrow> (thrown + TestResults option) \<times> 'w"
  abortIfNotClosed :: "'w \<Rightarrow> thrown option \<times> 'w"

text \<open>The calls made on the collaborators, recorded with whether each returned normally.\<close>

datatype call =
  NewPage | SetViewportSize | EyesOpen string | Goto string | WaitForTimeout
  | EyesCheck string | EyesClose | AbortIfNotClosed

text \<open>
  The mutable state of a run: the module-level \<^verbatim>\<open>testSummary\<close>, the world of the
  collaborators, and the record of calls made so far.
\<close>

record 'w run =
  summary :: TestSummary
  world :: 'w
  calls :: "(call \<times> bool) list"

definition invoke ::
  "call \<Rightarrow> ('w \<Rightarrow> thrown option \<times> 'w) \<Rightarrow> 'w run \<Rightarrow> thrown option \<times> 'w run" where
  "invoke c f r =
     (case f (world r) of
        (out, w') \<Rightarrow> (out, r\<lparr>world := w', calls := calls r @ [(c, out = None)]\<rparr>))"

definition isOK :: "thrown + 'a \<Rightarrow> bool" where
  "isOK out = (case out of Inl x \<Rightarrow> False | Inr v \<Rightarrow> True)"

definition invoke_close ::
  "'w collaborators \<Rightarrow> 'w run \<Rightarrow> (thrown + TestResults option) \<times> 'w run" where
  "invoke_close c r =
     (case eyesClose c (world r) of
        (out, w') \<Rightarrow> (out, r\<lparr>world := w', calls := calls r @ [(EyesClose, isOK out)]\<rparr>))"

subsection \<open>One remote session\<close>

text \<open>
  \<^verbatim>\<open>if (!localPage || localPage.isClosed()) { localPage = await browser.newPage();
  await localPage.setViewportSize(config.viewport); }\<close>
\<close>

definition acquire_page :: "'w collaborators \<Rightarrow> 'w run \<Rightarrow> thrown option \<times> 'w run" where
  "acquire_page c r =
     (if pageUnusable c (world r)
      then (case invoke NewPage (newPage c) r of
              (Some x, r1) \<Rightarrow> (Some x, r1)
            | (None, r1) \<Rightarrow> invoke SetViewportSize (setViewportSize c) r1)
      else (None, r))"

text \<open>
  The statements of the \<^verbatim>\<open>try\<close> block that \<^verbatim>\<open>establishBaseline\<close> and
  \<^verbatim>\<open>performEyesComparison\<close> have in common, from the page test to \<^verbatim>\<open>eyes.close()\<close>;
  the two differ in the prefix of the test name only. The result is what the block is
  left with: the exception or the value of \<^verbatim>\<open>eyes.close()\<close>, the local flag
  \<^verbatim>\<open>eyesOpened\<close>, and the run.
\<close>

definition session_steps ::
  "'w collaborators \<Rightarrow> string \<Rightarrow> UrlEntry \<Rightarrow> 'w run
     \<Rightarrow> (thrown + TestResults option) \<times> bool \<times> 'w run" where
  "session_steps c prefix urlEntry r0 =
     (case acquire_page c r0 of
        (Some x, r1) \<Rightarrow> (Inl x, False, r1)
      | (None, r1) \<Rightarrow>
     (case invoke (EyesOpen (prefix @ name urlEntry)) (eyesOpen c (prefix @ name urlEntry)) r1 of
        (Some x, r2) \<Rightarrow> (Inl x, False, r2)
      | (None, r2) \<Rightarrow>
     (case invoke (Goto (url urlEntry)) (goto c (url urlEntry)) r2 of
        (Some x, r3) \<Rightarrow> (Inl x, True, r3)
      | (None, r3) \<Rightarrow>
     (case invoke WaitForTimeout (waitForTimeout c) r3 of
        (Some x, r4) \<Rightarrow> (Inl x, True, r4)
      | (None, r4) \<Rightarrow>
     (case invoke (EyesCheck (name urlEntry @ '' - Full Page''))
             (eyesCheck c (name urlEntry @ '' - Full Page'')) r4 of
        (Some x, r5) \<Rightarrow> (Inl x, True, r5)
      | (None, r5) \<Rightarrow>
     (case invoke_close c r5 of
        (Inl x, r6) \<Rightarrow> (Inl x, True, r6)
      | (Inr closeValue, r6) \<Rightarrow> (Inr closeValue, False, r6)))))))"

text \<open>
  The head of both \<^verbatim>\<open>catch\<close> blocks:
  \<^verbatim>\<open>if (eyesOpened) { try { await eyes.abortIfNotClosed(); } catch (abortError) { console.error(...) } }\<close>.
  An exception of the abort is caught and only printed.
\<close>

definition abort_if_opened :: "'w collaborators \<Rightarrow> bool \<Rightarrow> 'w run \<Rightarrow> 'w run" where
  "abort_if_opened c eyesOpened r =
     (if eyesOpened then snd (invoke AbortIfNotClosed (abortIfNotClosed c) r) else r)"

text \<open>\<^verbatim>\<open>testSummary.errors.push(errorMsg)\<close>\<close>

definition push_error :: "string \<Rightarrow> 'w run \<Rightarrow> 'w run" where
  "push_error errorMsg r = r\<lparr>summary := (summary r)\<lparr>errors := errors (summary r) @ [errorMsg]\<rparr>\<rparr>"

subsection \<open>\<^verbatim>\<open>establishBaseline\<close>\<close>

definition establishBaseline :: "'w collaborators \<Rightarrow> UrlEntry \<Rightarrow> 'w run \<Rightarrow> 'w run" where
  "establishBaseline c urlEntry r0 =
     (case session_steps c ''Baseline: '' urlEntry r0 of
        (Inr results, eyesOpened, r1) \<Rightarrow> r1
      | (Inl x, eyesOpened, r1) \<Rightarrow>
          push_error (''Failed to establish baseline for '' @ url urlEntry @ '': '' @ thrown_text x)
            (abort_if_opened c eyesOpened r1))"

subsection \<open>\<^verbatim>\<open>performEyesComparison\<close>\<close>

text \<open>The object literal that \<^verbatim>\<open>result\<close> starts as.\<close>

definition initial_result :: "UrlEntry \<Rightarrow> ComparisonResult" where
  "initial_result urlEntry =
     \<lparr>r_url = url urlEntry, testName = name urlEntry, status = ''Failed'', appUrl = None,
      stepsInfo = 0, matches = 0, mismatches = 0, missing = 0, success = False, error = None\<rparr>"

text \<open>The assignments to \<^verbatim>\<open>result\<close> in the branch \<^verbatim>\<open>if (eyesResults)\<close>, with
  \<open>tr\<close> for the local \<^verbatim>\<open>eyesResults\<close> (the name is taken by the field of the summary).
  A getter of the SDK's results object returns a stored value and does not throw.\<close>

definition fill_result :: "TestResults \<Rightarrow> ComparisonResult \<Rightarrow> ComparisonResult" where
  "fill_result tr result =
     result\<lparr>status := getStatus tr,
            appUrl := Some (getUrl tr),
            stepsInfo := getSteps tr,
            matches := getMatches tr,
            mismatches := getMismatches tr,
            missing := getMissing tr,
            success := (getStatus tr = ''Passed'')\<rparr>"

text \<open>The statements under \<^verbatim>\<open>// Update summary\<close> in the same branch.\<close>

definition update_summary :: "ComparisonResult \<Rightarrow> TestSummary \<Rightarrow> TestSummary" where
  "update_summary result s =
     (let s1 = (if success result
                then s\<lparr>successfulComparisons := successfulComparisons s + 1\<rparr>
                else s\<lparr>failedComparisons := failedComparisons s + 1\<rparr>)
      in s1\<lparr>totalMatches := totalMatches s1 + matches result,
            totalMismatches := totalMismatches s1 + mismatches result,
            totalMissing := totalMissing s1 + missing result\<rparr>)"

text \<open>The \<^verbatim>\<open>catch (error)\<close> block of \<^verbatim>\<open>performEyesComparison\<close>.\<close>

definition catch_comparison ::
  "'w collaborators \<Rightarrow> UrlEntry \<Rightarrow> ComparisonResult \<Rightarrow> thrown \<Rightarrow> bool \<Rightarrow> 'w run
     \<Rightarrow> ComparisonResult \<times> 'w run" where
  "catch_comparison c urlEntry result x eyesOpened r =
     (let r1 = abort_if_opened c eyesOpened r;
          result' = result\<lparr>error := Some (thrown_message x), success := False\<rparr>;
          r2 = r1\<lparr>summary := (summary r1)\<lparr>failedComparisons := failedComparisons (summary r1) + 1\<rparr>\<rparr>
      in (result',
          push_error (''Failed Eyes comparison for '' @ url urlEntry @ '': '' @ thrown_text x) r2))"

text \<open>
  \<^verbatim>\<open>performEyesComparison\<close>. A \<^verbatim>\<open>null\<close> from \<^verbatim>\<open>eyes.close()\<close> reaches the
  \<^verbatim>\<open>catch\<close> block through \<^verbatim>\<open>throw new Error('No results returned from Eyes')\<close>.
\<close>

definition performEyesComparison ::
  "'w collaborators \<Rightarrow> UrlEntry \<Rightarrow> 'w run \<Rightarrow> ComparisonResult \<times> 'w run" where
  "performEyesComparison c urlEntry r0 =
     (case session_steps c ''Comparison: '' urlEntry r0 of
        (Inr (Some tr), eyesOpened, r1) \<Rightarrow>
          (let result = fill_result tr (initial_result urlEntry)
           in (result, r1\<lparr>summary := update_summary result (summary r1)\<rparr>))
      | (Inr None, eyesOpened, r1) \<Rightarrow>
          catch_comparison c urlEntry (initial_result urlEntry)
            (JsError ''Error'' ''No results returned from Eyes'') eyesOpened r1
      | (Inl x, eyesOpened, r1) \<Rightarrow>
          catch_comparison c urlEntry (initial_result urlEntry) x eyesOpened r1)"

subsection \<open>The test steps\<close>

text \<open>
  The object that \<^verbatim>\<open>beforeAll\<close> assigns to \<^verbatim>\<open>testSummary\<close>. Steps 1 and 2 of the suite
  only append to \<^verbatim>\<open>errors\<close>, so a run of Steps 3 and 4 starts from this summary with
  the errors they left.
\<close>

definition initial_summary :: "string list \<Rightarrow> TestSummary" where
  "initial_summary errs =
     \<lparr>totalUrls = 0, successfulComparisons = 0, failedComparisons = 0, totalMatches = 0,
      totalMismatches = 0, totalMissing = 0, errors = errs, eyesResults = []\<rparr>"

definition initial_run :: "string list \<Rightarrow> 'w \<Rightarrow> 'w run" where
  "initial_run errs w = \<lparr>summary = initial_summary errs, world = w, calls = []\<rparr>"

text \<open>
  The \<^verbatim>\<open>catch\<close> block of Steps 3 and 4: push the message and
  \<^verbatim>\<open>throw new Error(errorMsg)\<close>.
\<close>

definition rethrow :: "string \<Rightarrow> thrown \<Rightarrow> 'w run \<Rightarrow> thrown option \<times> 'w run" where
  "rethrow prefix x r =
     (let errorMsg = prefix @ thrown_text x
      in (Some (JsError ''Error'' errorMsg), push_error errorMsg r))"

text \<open>
  Step 3. \<open>apiKey\<close> is whether \<^verbatim>\<open>process.env.APPLITOOLS_API_KEY\<close> is set; the result is
  the exception the test ends with, if any, and the run.
\<close>

definition step3 ::
  "'w collaborators \<Rightarrow> bool \<Rightarrow> csv_stream \<Rightarrow> 'w run \<Rightarrow> thrown option \<times> 'w run" where
  "step3 c apiKey source r =
     (if \<not> apiKey then (None, r)
      else (case readCsvFile source of
              Inl x \<Rightarrow> rethrow ''Failed to establish baselines: '' x r
            | Inr urls \<Rightarrow>
                (None,
                 fold (establishBaseline c) urls
                   (r\<lparr>summary :=
                        (summary r)\<lparr>totalUrls := totalUrls (summary r) + int (length urls)\<rparr>\<rparr>))))"

text \<open>
  The body of the loop of Step 4:
  \<^verbatim>\<open>const result = await performEyesComparison(urlEntry); testSummary.eyesResults.push(result);\<close>
\<close>

definition compare_and_push :: "'w collaborators \<Rightarrow> UrlEntry \<Rightarrow> 'w run \<Rightarrow> 'w run" where
  "compare_and_push c urlEntry r =
     (case performEyesComparison c urlEntry r of
        (result, r1) \<Rightarrow>
          r1\<lparr>summary := (summary r1)\<lparr>eyesResults := eyesResults (summary r1) @ [result]\<rparr>\<rparr>)"

definition step4 ::
  "'w collaborators \<Rightarrow> bool \<Rightarrow> csv_stream \<Rightarrow> 'w run \<Rightarrow> thrown option \<times> 'w run" where
  "step4 c apiKey target r =
     (if \<not> apiKey then (None, r)
      else (case readCsvFile target of
              Inl x \<Rightarrow> rethrow ''Failed to perform visual comparison: '' x r
            | Inr urls \<Rightarrow> (None, fold (compare_and_push c) urls r)))"

text \<open>Step 3, then Step 4 (Jest runs each test of the file, also after a failed one).\<close>

definition run_steps ::
  "'w collaborators \<Rightarrow> bool \<Rightarrow> csv_stream \<Rightarrow> csv_stream \<Rightarrow> 'w run \<Rightarrow> 'w run" where
  "run_steps c apiKey source target r =
     snd (step4 c apiKey target (snd (step3 c apiKey source r)))"

subsection \<open>The report\<close>

text \<open>
  The first two statements of \<^verbatim>\<open>generateSummaryReport\<close>. \<open>toFixed\<close> stands for the call
  \<^verbatim>\<open>Number.prototype.toFixed(2)\<close> on the quotient, which the code computes in double
  precision.
\<close>

definition totalComparisons :: "TestSummary \<Rightarrow> int" where
  "totalComparisons s = successfulComparisons s + failedComparisons s"

definition successRate :: "(rat \<Rightarrow> string) \<Rightarrow> TestSummary \<Rightarrow> string" where
  "successRate toFixed s =
     (if totalComparisons s > 0
      then toFixed ((of_int (successfulComparisons s) / of_int (totalComparisons s)) * 100)
      else ''0'')"

text \<open>The line \<^verbatim>\<open>- **Success Rate**: ${successRate}%\<close> of the report.\<close>

definition success_rate_line :: "(rat \<Rightarrow> string) \<Rightarrow> TestSummary \<Rightarrow> string" where
  "success_rate_line toFixed s = ''- **Success Rate**: '' @ successRate toFixed s @ ''%''"

subsection \<open>Observations used in the statements\<close>

text \<open>The calls made between two states of a run, and how many of them are aborts.\<close>

definition new_calls :: "'w run \<Rightarrow> 'w run \<Rightarrow> (call \<times> bool) list" where
  "new_calls r r' = drop (length (calls r)) (calls r')"

definition aborts :: "(call \<times> bool) list \<Rightarrow> nat" where
  "aborts cs = length (filter (\<lambda>k. fst k = AbortIfNotClosed) cs)"


text \<open>What identifies an entry, and the same two fields of a result.\<close>

definition entry_key :: "UrlEntry \<Rightarrow> string \<times> string" where
  "entry_key urlEntry = (url urlEntry, name urlEntry)"

definition result_key :: "ComparisonResult \<Rightarrow> string \<times> string" where
  "result_key result = (r_url result, testName result)"

text \<open>A row that has both fields, neither of them empty, and the entry it stands for.\<close>

definition valid_row :: "csv_row \<Rightarrow> bool" where
  "valid_row data \<longleftrightarrow>
     data ''url'' \<noteq> None \<and> data ''url'' \<noteq> Some [] \<and> data ''name'' \<noteq> None \<and> data ''name'' \<noteq> Some []"

definition row_entry :: "csv_row \<Rightarrow> UrlEntry" where
  "row_entry data = \<lparr>url = the (data ''url''), name = the (data ''name'')\<rparr>"

text \<open>The number that Step 3 adds to \<^verbatim>\<open>totalUrls\<close>.\<close>

definition baseline_count :: "bool \<Rightarrow> csv_stream \<Rightarrow> int" where
  "baseline_count apiKey source =
     (if apiKey
      then (case readCsvFile source of Inl x \<Rightarrow> 0 | Inr urls \<Rightarrow> int (length urls))
      else 0)"

text \<open>The counters of a summary agree with its list of results.\<close>

definition consistent :: "TestSummary \<Rightarrow> bool" where
  "consistent s \<longleftrightarrow>
     successfulComparisons s + failedComparisons s = int (length (eyesResults s))
   \<and> successfulComparisons s
       = int (length (filter (\<lambda>result. status result = ''Passed'') (eyesResults s)))
   \<and> totalMatches s = sum_list (map matches (eyesResults s))
   \<and> totalMismatches s = sum_list (map mismatches (eyesResults s))
   \<and> totalMissing s = sum_list (map missing (eyesResults s))"

subsection \<open>A scripted pair of collaborators\<close>

text \<open>
  Collaborators for concrete runs. The world is the URL the page shows; navigation fails as
  \<open>nav\<close> says and otherwise moves the page; \<^verbatim>\<open>eyes.close()\<close> answers as \<open>verdict\<close> says
  for the page shown; every other call returns.
\<close>

definition scripted ::
  "(string \<Rightarrow> thrown option) \<Rightarrow> (string \<Rightarrow> thrown + TestResults option)
     \<Rightarrow> string collaborators" where
  "scripted nav verdict =
     \<lparr>pageUnusable = (\<lambda>w. False),
      newPage = (\<lambda>w. (None, w)),
      setViewportSize = (\<lambda>w. (None, w)),
      eyesOpen = (\<lambda>t w. (None, w)),
      goto = (\<lambda>u w. (nav u, if nav u = None then u else w)),
      waitForTimeout = (\<lambda>w. (None, w)),
      eyesCheck = (\<lambda>t w. (None, w)),
      eyesClose = (\<lambda>w. (verdict w, w)),
      abortIfNotClosed = (\<lambda>w. (None, w))\<rparr>"

definition verdict_of :: "string \<Rightarrow> int \<Rightarrow> TestResults" where
  "verdict_of st m =
     \<lparr>getStatus = st, getUrl = ''https://eyes.example/r'', getSteps = 1,
      getMatches = m, getMismatches = 0, getMissing = 0\<rparr>"

definition timeout_error :: thrown where
  "timeout_error = JsError ''TimeoutError'' ''Timeout 60000ms exceeded''"

text \<open>
  \<^verbatim>\<open>bad\<close> cannot be reached; closing on \<^verbatim>\<open>null\<close> gives no results object, on
  \<^verbatim>\<open>open\<close> it throws, on \<^verbatim>\<open>unres\<close> the verdict is Unresolved, on \<^verbatim>\<open>neg\<close> the verdict
  carries a negative count; every other page passes with one match.
\<close>

definition demo_nav :: "string \<Rightarrow> thrown option" where
  "demo_nav u = (if u = ''bad'' then Some timeout_error else None)"

definition demo_verdict :: "string \<Rightarrow> thrown + TestResults option" where
  "demo_verdict w =
     (if w = ''null'' then Inr None
      else if w = ''open'' then Inl (JsError ''Error'' ''close failed'')
      else if w = ''unres'' then Inr (Some (verdict_of ''Unresolved'' 0))
      else if w = ''neg'' then Inr (Some (verdict_of ''Passed'' (- 1)))
      else Inr (Some (verdict_of ''Passed'' 1)))"

definition demo :: "string collaborators" where
  "demo = scripted demo_nav demo_verdict"

definition entry :: "string \<Rightarrow> UrlEntry" where
  "entry u = \<lparr>url = u, name = u\<rparr>"

definition row :: "string \<Rightarrow> csv_row" where
  "row u = [''url'' \<mapsto> u, ''name'' \<mapsto> u]"

text \<open>
  An Eyes client that keeps its session: the world is whether a session is open.
  \<^verbatim>\<open>eyes.open\<close> throws while one is open, \<^verbatim>\<open>eyes.close\<close> closes it with a passing
  verdict, and \<^verbatim>\<open>abortIfNotClosed\<close> closes it or, when \<open>abortWorks\<close> is false, throws and
  leaves it open. Navigation fails as \<open>demo_nav\<close> says.
\<close>

definition eyes_session :: "bool \<Rightarrow> bool collaborators" where
  "eyes_session abortWorks =
     \<lparr>pageUnusable = (\<lambda>w. False),
      newPage = (\<lambda>w. (None, w)),
      setViewportSize = (\<lambda>w. (None, w)),
      eyesOpen = (\<lambda>t w. if w then (Some (JsError ''Error'' ''A test is already running''), w)
                          else (None, True)),
      goto = (\<lambda>u w. (demo_nav u, w)),
      waitForTimeout = (\<lambda>w. (None, w)),
      eyesCheck = (\<lambda>t w. (None, w)),
      eyesClose = (\<lambda>w. (Inr (Some (verdict_of ''Passed'' 1)), False)),
      abortIfNotClosed = (\<lambda>w. if abortWorks then (None, False)
                               else (Some (JsError ''Error'' ''abort failed''), w))\<rparr>"

text \<open>
  Collaborators that record the calls they receive: \<open>spy c\<close> behaves as \<open>c\<close> on the first
  component of its world and appends every call it receives, with whether it returned, to
  the second.
\<close>

definition spied ::
  "call \<Rightarrow> ('w \<Rightarrow> thrown option \<times> 'w) \<Rightarrow> 'w \<times> (call \<times> bool) list
     \<Rightarrow> thrown option \<times> 'w \<times> (call \<times> bool) list" where
  "spied k f v = (case f (fst v) of (out, w') \<Rightarrow> (out, (w', snd v @ [(k, out = None)])))"

definition spy :: "'w collaborators \<Rightarrow> ('w \<times> (call \<times> bool) list) collaborators" where
  "spy c =
     \<lparr>pageUnusable = (\<lambda>v. pageUnusable c (fst v)),
      newPage = spied NewPage (newPage c),
      setViewportSize = spied SetViewportSize (setViewportSize c),
      eyesOpen = (\<lambda>t. spied (EyesOpen t) (eyesOpen c t)),
      goto = (\<lambda>u. spied (Goto u) (goto c u)),
      waitForTimeout = spied WaitForTimeout (waitForTimeout c),
      eyesCheck = (\<lambda>t. spied (EyesCheck t) (eyesCheck c t)),
      eyesClose = (\<lambda>v. case eyesClose c (fst v) of
                   (out, w') \<Rightarrow> (out, (w', snd v @ [(EyesClose, isOK out)]))),
      abortIfNotClosed = spied AbortIfNotClosed (abortIfNotClosed c)\<rparr>"

section \<open>Properties\<close>

subsection \<open>One session: calls made, summary untouched\<close>

lemma invoke_calls: "invoke k f r = (out, r') \<Longrightarrow> calls r' = calls r @ [(k, out = None)] \<and> summary r' = summary r"
  by (auto simp: invoke_def split: prod.splits)

lemma invoke_close_calls: "invoke_close c r = (out, r') \<Longrightarrow> calls r' = calls r @ [(EyesClose, isOK out)] \<and> summary r' = summary r"
  by (auto simp: invoke_close_def split: prod.splits)

lemma acquire_page_calls:
  "acquire_page c r = (out, r') \<Longrightarrow>
     \<exists>cs. calls r' = calls r @ cs \<and> summary r' = summary r
        \<and> (\<forall>t b. (EyesOpen t, b) \<notin> set cs) \<and> (\<forall>b. (EyesClose, b) \<notin> set cs)
        \<and> (\<forall>b. (AbortIfNotClosed, b) \<notin> set cs)"
  by (auto simp: acquire_page_def split: if_splits prod.splits option.splits dest!: invoke_calls)

lemma session_steps_calls:
  "session_steps c p e r = (out, opened, r') \<Longrightarrow>
     \<exists>cs. calls r' = calls r @ cs \<and> summary r' = summary r
        \<and> (\<forall>b. (AbortIfNotClosed, b) \<notin> set cs)
        \<and> (opened \<longleftrightarrow> (EyesOpen (p @ name e), True) \<in> set cs \<and> (EyesClose, True) \<notin> set cs)
        \<and> (isOK out \<longleftrightarrow> (EyesClose, True) \<in> set cs)
        \<and> (\<forall>t. t \<noteq> p @ name e \<longrightarrow> (EyesOpen t, True) \<notin> set cs)"
  unfolding session_steps_def
  by (auto simp: isOK_def split: prod.splits option.splits sum.splits dest!: invoke_calls invoke_close_calls acquire_page_calls)

lemma session_steps_summary:
  "session_steps c p e r = (out, opened, r') \<Longrightarrow> summary r' = summary r"
  by (drule session_steps_calls) auto

lemma abort_if_opened_summary: "summary (abort_if_opened c opened r) = summary r"
  by (simp add: abort_if_opened_def invoke_def split: prod.splits)

lemma catch_comparison_result:
  "catch_comparison c e result x opened r = (res, r') \<Longrightarrow>
     res = result\<lparr>error := Some (thrown_message x), success := False\<rparr>
     \<and> summary r' = (summary r)\<lparr>failedComparisons := failedComparisons (summary r) + 1,
           errors := errors (summary r) @ [''Failed Eyes comparison for '' @ url e @ '': '' @ thrown_text x]\<rparr>
     \<and> world r' = world (abort_if_opened c opened r)
     \<and> calls r' = calls (abort_if_opened c opened r)"
  by (auto simp: catch_comparison_def Let_def push_error_def abort_if_opened_summary)

lemma perform_shape:
  "performEyesComparison c e r = (res, r') \<Longrightarrow>
     (case session_steps c ''Comparison: '' e r of
        (Inr (Some tr), opened, r1) \<Rightarrow>
           res = fill_result tr (initial_result e)
           \<and> summary r' = update_summary res (summary r) \<and> world r' = world r1 \<and> calls r' = calls r1
      | (Inr None, opened, r1) \<Rightarrow>
           (res, r') = catch_comparison c e (initial_result e) (JsError ''Error'' ''No results returned from Eyes'') opened r1
      | (Inl x, opened, r1) \<Rightarrow>
           (res, r') = catch_comparison c e (initial_result e) x opened r1)"
  by (auto simp: performEyesComparison_def Let_def split: prod.splits sum.splits option.splits dest: session_steps_summary)

lemma perform_counters:
  assumes "performEyesComparison c e r = (res, r')"
  shows "successfulComparisons (summary r') + failedComparisons (summary r')
           = successfulComparisons (summary r) + failedComparisons (summary r) + 1"
    and "successfulComparisons (summary r')
           = successfulComparisons (summary r) + (if status res = ''Passed'' then 1 else 0)"
    and "totalMatches (summary r') = totalMatches (summary r) + matches res"
    and "totalMismatches (summary r') = totalMismatches (summary r) + mismatches res"
    and "totalMissing (summary r') = totalMissing (summary r) + missing res"
    and "totalUrls (summary r') = totalUrls (summary r)"
    and "eyesResults (summary r') = eyesResults (summary r)"
    and "r_url res = url e" and "testName res = name e"
  using perform_shape[OF assms]
  by (auto simp: update_summary_def Let_def fill_result_def initial_result_def
           split: prod.splits sum.splits option.splits
           dest!: catch_comparison_result[OF sym] session_steps_summary)

lemma compare_and_push_consistent:
  assumes "consistent (summary r)"
  shows "consistent (summary (compare_and_push c e r))"
proof -
  obtain res r1 where p: "performEyesComparison c e r = (res, r1)"
    by (cases "performEyesComparison c e r")
  note k = perform_counters[OF p]
  have s: "summary (compare_and_push c e r) = (summary r1)\<lparr>eyesResults := eyesResults (summary r1) @ [res]\<rparr>"
    by (simp add: compare_and_push_def p)
  show ?thesis using assms k unfolding s consistent_def by simp
qed

lemma compare_and_push_results:
  "eyesResults (summary (compare_and_push c e r))
     = eyesResults (summary r) @ [fst (performEyesComparison c e r)]"
  "totalUrls (summary (compare_and_push c e r)) = totalUrls (summary r)"
proof -
  obtain res r1 where p: "performEyesComparison c e r = (res, r1)"
    by (cases "performEyesComparison c e r")
  note k = perform_counters[OF p]
  show "eyesResults (summary (compare_and_push c e r))
     = eyesResults (summary r) @ [fst (performEyesComparison c e r)]"
    using k by (simp add: compare_and_push_def p)
  show "totalUrls (summary (compare_and_push c e r)) = totalUrls (summary r)"
    using k by (simp add: compare_and_push_def p)
qed

lemma loop_consistent:
  "consistent (summary r) \<Longrightarrow> consistent (summary (fold (compare_and_push c) es r))"
  by (induction es arbitrary: r) (simp_all add: compare_and_push_consistent)

lemma loop_keys:
  "map result_key (eyesResults (summary (fold (compare_and_push c) es r)))
     = map result_key (eyesResults (summary r)) @ map entry_key es"
proof (induction es arbitrary: r)
  case Nil
  show ?case by simp
next
  case (Cons e es)
  obtain res r1 where p: "performEyesComparison c e r = (res, r1)"
    by (cases "performEyesComparison c e r")
  have "result_key res = entry_key e"
    using perform_counters(8,9)[OF p] by (simp add: result_key_def entry_key_def)
  then show ?case
    by (simp add: Cons.IH compare_and_push_results p)
qed

lemma loop_totalUrls:
  "totalUrls (summary (fold (compare_and_push c) es r)) = totalUrls (summary r)"
  by (induction es arbitrary: r) (simp_all add: compare_and_push_results)

lemma establishBaseline_summary:
  "(summary (establishBaseline c e r))\<lparr>errors := []\<rparr> = (summary r)\<lparr>errors := []\<rparr>"
proof -
  obtain out opened r1 where st: "session_steps c ''Baseline: '' e r = (out, opened, r1)"
    by (cases "session_steps c ''Baseline: '' e r")
  have "summary r1 = summary r" by (rule session_steps_summary[OF st])
  then show ?thesis
    by (cases out) (simp_all add: establishBaseline_def st push_error_def abort_if_opened_summary)
qed

lemma baseline_loop_summary:
  "(summary (fold (establishBaseline c) es r))\<lparr>errors := []\<rparr> = (summary r)\<lparr>errors := []\<rparr>"
  by (induction es arbitrary: r) (simp_all add: establishBaseline_summary)

lemma step3_summary:
  "(summary (snd (step3 c apiKey source r)))\<lparr>errors := []\<rparr>
     = (summary r)\<lparr>totalUrls := totalUrls (summary r) + baseline_count apiKey source, errors := []\<rparr>"
proof (cases "readCsvFile source")
  case (Inl x)
  then show ?thesis
    by (simp add: step3_def baseline_count_def rethrow_def push_error_def Let_def)
next
  case (Inr urls)
  then show ?thesis
    by (simp add: step3_def baseline_count_def baseline_loop_summary)
qed

lemma erase_errors_fields:
  assumes "s\<lparr>errors := []\<rparr> = t\<lparr>errors := []\<rparr>"
  shows "totalUrls s = totalUrls t" "successfulComparisons s = successfulComparisons t"
    "failedComparisons s = failedComparisons t" "totalMatches s = totalMatches t"
    "totalMismatches s = totalMismatches t" "totalMissing s = totalMissing t"
    "eyesResults s = eyesResults t"
  using assms by (cases s; cases t; simp)+

lemma step3_consistent:
  "consistent (summary r) \<Longrightarrow> consistent (summary (snd (step3 c apiKey source r)))"
  using erase_errors_fields[OF step3_summary[of c apiKey source r]]
  by (simp add: consistent_def)

lemma push_error_consistent: "consistent (summary r) \<Longrightarrow> consistent (summary (push_error m r))"
  by (simp add: consistent_def push_error_def)

lemma step4_consistent:
  "consistent (summary r) \<Longrightarrow> consistent (summary (snd (step4 c apiKey target r)))"
  by (cases "readCsvFile target")
     (simp_all add: step4_def loop_consistent rethrow_def Let_def push_error_consistent)

lemma step4_totalUrls:
  "totalUrls (summary (snd (step4 c apiKey target r))) = totalUrls (summary r)"
  by (cases "readCsvFile target")
     (simp_all add: step4_def loop_totalUrls rethrow_def Let_def push_error_def)

lemma initial_consistent: "consistent (initial_summary errs)"
  by (simp add: consistent_def initial_summary_def)

lemma run_steps_consistent:
  "consistent (summary (run_steps c apiKey source target (initial_run errs w)))"
  unfolding run_steps_def
  by (intro step4_consistent step3_consistent) (simp add: initial_run_def initial_consistent)

lemma run_steps_totalUrls:
  "totalUrls (summary (run_steps c apiKey source target (initial_run errs w))) = baseline_count apiKey source"
  unfolding run_steps_def
  using erase_errors_fields(1)[OF step3_summary[of c apiKey source "initial_run errs w"]]
  by (simp add: step4_totalUrls initial_run_def initial_summary_def)

subsection \<open>Reading rows\<close>

lemma truthy_iff: "truthy v \<longleftrightarrow> v \<noteq> None \<and> v \<noteq> Some []"
  by (cases v) auto

lemma on_data_fold:
  "fold on_data rows acc = acc @ map row_entry (filter valid_row rows)"
  by (induction rows arbitrary: acc) (simp_all add: on_data_def valid_row_def row_entry_def truthy_iff)

lemma readCsvFile_end: "readCsvFile (rows, None) = Inr (map row_entry (filter valid_row rows))"
  by (simp add: readCsvFile_def on_data_fold)

lemma loop_length:
  "length (eyesResults (summary (fold (compare_and_push c) es r)))
     = length (eyesResults (summary r)) + length es"
  using arg_cong[OF loop_keys[of c es r], of length] by simp

subsection \<open>Results and counters of one comparison\<close>

lemma perform_result:
  "fst (performEyesComparison c e r) =
     (case fst (session_steps c ''Comparison: '' e r) of
        Inr (Some tr) \<Rightarrow> fill_result tr (initial_result e)
      | Inr None \<Rightarrow> (initial_result e)\<lparr>error := Some ''No results returned from Eyes'', success := False\<rparr>
      | Inl x \<Rightarrow> (initial_result e)\<lparr>error := Some (thrown_message x), success := False\<rparr>)"
  by (simp add: performEyesComparison_def catch_comparison_def Let_def
      split: prod.splits sum.splits option.splits)

lemma demo_run:
  "summary (run_steps demo True ([row ''good''], None) ([row ''good'', row ''bad''], None) (initial_run [] ''''))
   = \<lparr>totalUrls = 1, successfulComparisons = 1, failedComparisons = 1,
    totalMatches = 1, totalMismatches = 0, totalMissing = 0,
    errors =
      [''Failed Eyes comparison for bad: TimeoutError: Timeout 60000ms exceeded''],
    eyesResults =
      [\<lparr>r_url = ''good'', testName = ''good'', status = ''Passed'',
          appUrl = Some ''https://eyes.example/r'', stepsInfo = 1,
          matches = 1, mismatches = 0, missing = 0, success = True,
          error = None\<rparr>,
       \<lparr>r_url = ''bad'', testName = ''bad'', status = ''Failed'',
          appUrl = None, stepsInfo = 0, matches = 0, mismatches = 0,
          missing = 0, success = False,
          error = Some ''Timeout 60000ms exceeded''\<rparr>]\<rparr>"
  by code_simp

lemma perform_verdict_counters:
  assumes "fst (session_steps c ''Comparison: '' e r) = Inr (Some tr)"
  shows "successfulComparisons (summary (snd (performEyesComparison c e r)))
           = successfulComparisons (summary r) + (if getStatus tr = ''Passed'' then 1 else 0)"
    and "failedComparisons (summary (snd (performEyesComparison c e r)))
           = failedComparisons (summary r) + (if getStatus tr = ''Passed'' then 0 else 1)"
proof -
  obtain res r' where p: "performEyesComparison c e r = (res, r')"
    by (cases "performEyesComparison c e r")
  have res: "res = fill_result tr (initial_result e)"
    using perform_result[of c e r] assms by (simp add: p)
  have st: "status res = getStatus tr" by (simp add: res fill_result_def)
  show "successfulComparisons (summary (snd (performEyesComparison c e r)))
           = successfulComparisons (summary r) + (if getStatus tr = ''Passed'' then 1 else 0)"
    using perform_counters(2)[OF p] by (simp add: p st)
  then show "failedComparisons (summary (snd (performEyesComparison c e r)))
           = failedComparisons (summary r) + (if getStatus tr = ''Passed'' then 0 else 1)"
    using perform_counters(1)[OF p] by (simp add: p split: if_splits)
qed

lemma demo_unres_steps:
  "fst (session_steps demo ''Comparison: '' (entry ''unres'') (initial_run [] ''''))
     = Inr (Some (verdict_of ''Unresolved'' 0))"
  by code_simp

lemma consistent_total:
  "consistent s \<Longrightarrow> totalComparisons s = int (length (eyesResults s))"
  by (simp add: consistent_def totalComparisons_def)

subsection \<open>Calls made by one comparison\<close>

lemma abort_if_opened_calls:
  "calls (abort_if_opened c opened r)
     = calls r @ (if opened then [(AbortIfNotClosed, fst (abortIfNotClosed c (world r)) = None)] else [])"
  by (simp add: abort_if_opened_def invoke_def split: prod.splits)

lemma perform_calls_after:
  assumes "session_steps c ''Comparison: '' e r = (out, opened, r1)"
  shows "calls (snd (performEyesComparison c e r))
     = calls r1 @ (if opened then [(AbortIfNotClosed, fst (abortIfNotClosed c (world r1)) = None)] else [])"
proof -
  have no: "\<not> opened" if "isOK out"
    using session_steps_calls[OF assms] that by auto
  show ?thesis
  proof (cases out)
    case (Inl x)
    then show ?thesis
      by (simp add: performEyesComparison_def assms catch_comparison_def Let_def push_error_def
          abort_if_opened_calls)
  next
    case (Inr v)
    then have "\<not> opened" using no by (simp add: isOK_def)
    then show ?thesis using Inr
      by (cases v) (simp_all add: performEyesComparison_def assms catch_comparison_def Let_def
          push_error_def abort_if_opened_calls)
  qed
qed

lemma aborts_append: "aborts (xs @ ys) = aborts xs + aborts ys"
  by (simp add: aborts_def)

lemma aborts_none: "(\<forall>b. (AbortIfNotClosed, b) \<notin> set cs) \<Longrightarrow> aborts cs = 0"
  by (induction cs) (auto simp: aborts_def)

subsection \<open>One comparison: totals, the missing results object, the world it leaves\<close>

lemma initial_run_summary: "summary (initial_run errs w) = initial_summary errs"
  by (simp add: initial_run_def)

lemma perform_totals:
  "totalMatches (summary (snd (performEyesComparison c e r)))
     = totalMatches (summary r) + matches (fst (performEyesComparison c e r))"
  "totalMismatches (summary (snd (performEyesComparison c e r)))
     = totalMismatches (summary r) + mismatches (fst (performEyesComparison c e r))"
  "totalMissing (summary (snd (performEyesComparison c e r)))
     = totalMissing (summary r) + missing (fst (performEyesComparison c e r))"
  using perform_counters(3,4,5)[of c e r "fst (performEyesComparison c e r)" "snd (performEyesComparison c e r)"]
  by simp_all

lemma perform_null_summary:
  assumes "fst (session_steps c ''Comparison: '' e r) = Inr None"
  shows "summary (snd (performEyesComparison c e r))
     = (summary r)\<lparr>failedComparisons := failedComparisons (summary r) + 1,
          errors := errors (summary r)
             @ [''Failed Eyes comparison for '' @ url e @ '': Error: No results returned from Eyes'']\<rparr>"
proof -
  obtain out opened r1 where st: "session_steps c ''Comparison: '' e r = (out, opened, r1)"
    by (cases "session_steps c ''Comparison: '' e r")
  have out: "out = Inr None" using assms by (simp add: st)
  have s: "summary r1 = summary r" by (rule session_steps_summary[OF st])
  show ?thesis
    by (simp add: performEyesComparison_def st out catch_comparison_def Let_def push_error_def
        abort_if_opened_summary s)
qed

lemma perform_world:
  "world (snd (performEyesComparison c e r))
     = (case session_steps c ''Comparison: '' e r of
          (out, opened, r1) \<Rightarrow>
             (case out of Inr (Some tr) \<Rightarrow> world r1 | _ \<Rightarrow> world (abort_if_opened c opened r1)))"
  by (simp add: performEyesComparison_def catch_comparison_def Let_def push_error_def
      split: prod.splits sum.splits option.splits)



subsection \<open>What one comparison does to the collaborators\<close>





lemma session_steps_invariant:
  assumes init: "I r"
    and step: "\<And>k f r. I r \<Longrightarrow>
        (k, f) \<in> {(NewPage, newPage c), (SetViewportSize, setViewportSize c),
                  (EyesOpen (p @ name e), eyesOpen c (p @ name e)), (Goto (url e), goto c (url e)),
                  (WaitForTimeout, waitForTimeout c),
                  (EyesCheck (name e @ '' - Full Page''), eyesCheck c (name e @ '' - Full Page''))}
        \<Longrightarrow> I (snd (invoke k f r))"
    and close: "\<And>r. I r \<Longrightarrow> I (snd (invoke_close c r))"
  shows "I (snd (snd (session_steps c p e r)))"
proof -
  have a: "I (snd (acquire_page c r))"
    using init by (auto simp: acquire_page_def case_prod_beta split: option.split intro!: step)
  show ?thesis
    unfolding session_steps_def
    by (auto simp: case_prod_beta split: option.split sum.split intro!: step close a)
qed

lemma spy_fields:
  "newPage (spy c) = spied NewPage (newPage c)"
  "setViewportSize (spy c) = spied SetViewportSize (setViewportSize c)"
  "eyesOpen (spy c) t = spied (EyesOpen t) (eyesOpen c t)"
  "goto (spy c) u = spied (Goto u) (goto c u)"
  "waitForTimeout (spy c) = spied WaitForTimeout (waitForTimeout c)"
  "eyesCheck (spy c) t = spied (EyesCheck t) (eyesCheck c t)"
  "abortIfNotClosed (spy c) = spied AbortIfNotClosed (abortIfNotClosed c)"
  by (simp_all add: spy_def)

lemma spied_invoke:
  assumes "\<exists>cs. calls r = calls r0 @ cs \<and> snd (world r) = snd (world r0) @ cs"
  shows "\<exists>cs. calls (snd (invoke k (spied k f) r)) = calls r0 @ cs
            \<and> snd (world (snd (invoke k (spied k f) r))) = snd (world r0) @ cs"
  using assms by (auto simp: invoke_def spied_def case_prod_beta)

lemma spy_invoke_close:
  assumes "\<exists>cs. calls r = calls r0 @ cs \<and> snd (world r) = snd (world r0) @ cs"
  shows "\<exists>cs. calls (snd (invoke_close (spy c) r)) = calls r0 @ cs
            \<and> snd (world (snd (invoke_close (spy c) r))) = snd (world r0) @ cs"
  using assms by (auto simp: invoke_close_def spy_def case_prod_beta)

lemma spy_step:
  assumes i: "\<exists>cs. calls r = calls r0 @ cs \<and> snd (world r) = snd (world r0) @ cs"
    and m: "(k, f) \<in> {(NewPage, newPage (spy c)), (SetViewportSize, setViewportSize (spy c)),
                  (EyesOpen t, eyesOpen (spy c) t), (Goto u, goto (spy c) u),
                  (WaitForTimeout, waitForTimeout (spy c)),
                  (EyesCheck n, eyesCheck (spy c) n)}"
  shows "\<exists>cs. calls (snd (invoke k f r)) = calls r0 @ cs
            \<and> snd (world (snd (invoke k f r))) = snd (world r0) @ cs"
proof -
  from m have "\<exists>g. f = spied k g" unfolding spy_fields by blast
  then obtain g where "f = spied k g" ..
  then show ?thesis using spied_invoke[OF i] by simp
qed

lemma spy_session_steps:
  "\<exists>cs. calls (snd (snd (session_steps (spy c) p e r))) = calls r @ cs
        \<and> snd (world (snd (snd (session_steps (spy c) p e r)))) = snd (world r) @ cs"
  by (rule session_steps_invariant[where I = "\<lambda>r'. \<exists>cs. calls r' = calls r @ cs \<and> snd (world r') = snd (world r) @ cs"])
     (simp, erule spy_step, assumption, erule spy_invoke_close)

lemma world_abort_if_opened:
  "world (abort_if_opened c opened r) = (if opened then snd (abortIfNotClosed c (world r)) else world r)"
  by (simp add: abort_if_opened_def invoke_def case_prod_beta)

lemma steps_ok_not_opened:
  "isOK (fst (session_steps c p e r)) \<Longrightarrow> \<not> fst (snd (session_steps c p e r))"
  using session_steps_calls[of c p e r "fst (session_steps c p e r)"
      "fst (snd (session_steps c p e r))" "snd (snd (session_steps c p e r))"]
  by auto

lemma perform_world_after:
  "world (snd (performEyesComparison c e r))
     = (if fst (snd (session_steps c ''Comparison: '' e r))
        then snd (abortIfNotClosed c (world (snd (snd (session_steps c ''Comparison: '' e r)))))
        else world (snd (snd (session_steps c ''Comparison: '' e r))))"
proof (cases "fst (session_steps c ''Comparison: '' e r)")
  case (Inl x)
  then show ?thesis
    by (simp add: perform_world world_abort_if_opened case_prod_beta)
next
  case (Inr v)
  then have "\<not> fst (snd (session_steps c ''Comparison: '' e r))"
    using steps_ok_not_opened[of c "''Comparison: ''" e r] by (simp add: isOK_def)
  then show ?thesis using Inr
    by (cases v) (simp_all add: perform_world world_abort_if_opened case_prod_beta)
qed

lemma perform_calls_split:
  "new_calls r (snd (performEyesComparison c e r))
     = new_calls r (snd (snd (session_steps c ''Comparison: '' e r)))
       @ (if fst (snd (session_steps c ''Comparison: '' e r))
          then [(AbortIfNotClosed,
                 fst (abortIfNotClosed c (world (snd (snd (session_steps c ''Comparison: '' e r))))) = None)]
          else [])"
proof -
  obtain out opened rs where st: "session_steps c ''Comparison: '' e r = (out, opened, rs)"
    by (cases "session_steps c ''Comparison: '' e r")
  obtain cs where cs: "calls rs = calls r @ cs"
    using session_steps_calls[OF st] by blast
  show ?thesis
    by (simp add: new_calls_def perform_calls_after[OF st] st cs)
qed









lemma spy_perform:
  "snd (world (snd (performEyesComparison (spy c) e r)))
     = snd (world r) @ new_calls r (snd (performEyesComparison (spy c) e r))"
proof -
  let ?S = "session_steps (spy c) ''Comparison: '' e r"
  obtain cs where cs: "calls (snd (snd ?S)) = calls r @ cs"
      "snd (world (snd (snd ?S))) = snd (world r) @ cs"
    using spy_session_steps[of c "''Comparison: ''" e r] by blast
  have n: "new_calls r (snd (snd ?S)) = cs" by (simp add: new_calls_def cs(1))
  show ?thesis
    by (simp add: perform_world_after perform_calls_split n cs(2) spy_fields spied_def case_prod_beta)
qed

subsection \<open>The scripted collaborators, evaluated\<close>

lemma demo_bad_steps:
  "fst (session_steps demo ''Comparison: '' (entry ''bad'') (initial_run [] '''')) = Inl timeout_error"
  by code_simp

lemma demo_neg_steps:
  "fst (session_steps demo ''Comparison: '' (entry ''neg'') (initial_run [] ''''))
     = Inr (Some (verdict_of ''Passed'' (- 1)))"
  by code_simp

lemma demo_null_steps:
  "fst (session_steps demo ''Comparison: '' (entry ''null'') (initial_run [] '''')) = Inr None"
  by code_simp

lemma demo_good_calls:
  "new_calls (initial_run [] '''') (snd (performEyesComparison demo (entry ''good'') (initial_run [] '''')))
     = [(EyesOpen ''Comparison: good'', True), (Goto ''good'', True), (WaitForTimeout, True),
        (EyesCheck ''good - Full Page'', True), (EyesClose, True)]"
  by code_simp

lemma session_bad_calls:
  "new_calls (initial_run [] False)
       (snd (performEyesComparison (eyes_session True) (entry ''bad'') (initial_run [] False)))
     = [(EyesOpen ''Comparison: bad'', True), (Goto ''bad'', False), (AbortIfNotClosed, True)]"
  by code_simp

lemma session_bad_left:
  "world (snd (snd (session_steps (eyes_session True) ''Comparison: '' (entry ''bad'')
       (initial_run [] False)))) = True"
  by code_simp

lemma spy_open_calls:
  "new_calls (initial_run [] ('''', []))
       (snd (performEyesComparison (spy demo) (entry ''open'') (initial_run [] ('''', []))))
     = [(EyesOpen ''Comparison: open'', True), (Goto ''open'', True), (WaitForTimeout, True),
        (EyesCheck ''open - Full Page'', True), (EyesClose, False), (AbortIfNotClosed, True)]"
  by code_simp




section \<open>The claims\<close>

text \<open>
  C1 (amended). Aggregation: after Steps 3 and 4, run from the summary of \<^verbatim>\<open>beforeAll\<close>,
  succeeded + failed equals the number of ComparisonResults, and the totals of matches,
  mismatches and missing are the sums of those fields over the results. The counter
  \<^verbatim>\<open>totalUrls\<close> is the number of entries that Step 3 read for the baselines; Step 4 does
  not add to it, so it need not equal the number of results.
\<close>

theorem aggregation_correctness:
  "let s = summary (run_steps c apiKey source target (initial_run errs w)) in
     successfulComparisons s + failedComparisons s = int (length (eyesResults s))
   \<and> totalMatches s = sum_list (map matches (eyesResults s))
   \<and> totalMismatches s = sum_list (map mismatches (eyesResults s))
   \<and> totalMissing s = sum_list (map missing (eyesResults s))
   \<and> totalUrls s = baseline_count apiKey source"
  using run_steps_consistent[of c apiKey source target errs w]
    run_steps_totalUrls[of c apiKey source target errs w]
  by (simp add: consistent_def Let_def)

theorem aggregation_correctness_witness:
  "let s = summary (run_steps demo True ([row ''good''], None) ([row ''good'', row ''bad''], None) (initial_run [] '''')) in
     successfulComparisons s + failedComparisons s = 2 \<and> length (eyesResults s) = 2
   \<and> totalMatches s = 1 \<and> totalMismatches s = 0 \<and> totalMissing s = 0 \<and> totalUrls s = 1"
  using aggregation_correctness [of demo True "([row ''good''], None)" "([row ''good'', row ''bad''], None)" "[]" "''''"]
  unfolding demo_run by simp

text \<open>
  C1 as stated fails: with one row in the source file and two in the target file,
  \<^verbatim>\<open>totalUrls\<close> is 1 while two results were produced.
\<close>

theorem aggregation_total_counterexample:
  "\<not> (let s = summary (run_steps demo True ([row ''good''], None) ([row ''good'', row ''bad''], None)
                  (initial_run [] ''''))
      in successfulComparisons s + failedComparisons s = totalUrls s
         \<and> totalUrls s = int (length (eyesResults s)))"
  by code_simp

text \<open>
  C2 (amended). Every ComparisonResult is of one of two kinds. If \<^verbatim>\<open>eyes.close()\<close> returned
  a results object, the result has no error message and carries the status, URL and counts
  of that verdict. Otherwise (a step threw, or no results object came back) the result has
  an error message, keeps the initial status \<^verbatim>\<open>Failed\<close> (the code has no status
  \<^verbatim>\<open>Error\<close>), has no \<^verbatim>\<open>appUrl\<close>, counts 0 and \<^verbatim>\<open>success\<close> false. So a result with an
  error message never has status \<^verbatim>\<open>Passed\<close> nor \<^verbatim>\<open>success\<close> true.
\<close>

theorem comparison_result_invariant:
  "let result = fst (performEyesComparison c e r) in
     (case fst (session_steps c ''Comparison: '' e r) of
        Inr (Some tr) \<Rightarrow>
          error result = None \<and> status result = getStatus tr \<and> appUrl result = Some (getUrl tr)
          \<and> matches result = getMatches tr \<and> mismatches result = getMismatches tr
          \<and> missing result = getMissing tr \<and> success result = (getStatus tr = ''Passed'')
      | Inr None \<Rightarrow>
          error result = Some ''No results returned from Eyes'' \<and> status result = ''Failed''
          \<and> appUrl result = None \<and> matches result = 0 \<and> mismatches result = 0
          \<and> missing result = 0 \<and> \<not> success result
      | Inl x \<Rightarrow>
          error result = Some (thrown_message x) \<and> status result = ''Failed''
          \<and> appUrl result = None \<and> matches result = 0 \<and> mismatches result = 0
          \<and> missing result = 0 \<and> \<not> success result)
   \<and> (error result \<noteq> None \<longrightarrow> status result = ''Failed'' \<and> \<not> success result)"
  by (simp add: perform_result fill_result_def initial_result_def Let_def
      split: sum.splits option.splits)

theorem comparison_result_invariant_witness:
  "error (fst (performEyesComparison demo (entry ''bad'') (initial_run [] ''''))) = Some ''Timeout 60000ms exceeded''
   \<and> status (fst (performEyesComparison demo (entry ''bad'') (initial_run [] ''''))) = ''Failed''
   \<and> matches (fst (performEyesComparison demo (entry ''bad'') (initial_run [] ''''))) = 0
   \<and> \<not> success (fst (performEyesComparison demo (entry ''bad'') (initial_run [] '''')))"
  using comparison_result_invariant [of demo "entry ''bad''" "initial_run [] ''''"]
  by (simp add: demo_bad_steps Let_def timeout_error_def)

text \<open>
  C2 as stated fails: when navigation times out the result has an error message and the
  status \<^verbatim>\<open>Failed\<close>, not \<^verbatim>\<open>Error\<close>.
\<close>

theorem error_status_counterexample:
  "\<not> (status (fst (performEyesComparison demo (entry ''bad'') (initial_run [] ''''))) = ''Error''
        \<longleftrightarrow> error (fst (performEyesComparison demo (entry ''bad'') (initial_run [] ''''))) \<noteq> None)"
  by code_simp




text \<open>
  C4 (amended). Cleanup discipline: for one entry, \<^verbatim>\<open>abortIfNotClosed\<close> is invoked exactly
  once if \<^verbatim>\<open>eyes.open\<close> returned and no \<^verbatim>\<open>eyes.close\<close> returned, and never otherwise; in
  particular never when \<^verbatim>\<open>eyes.close\<close> returned. The abort is applied to the state of the
  collaborators that the failing step left, and the entry leaves them as that call left them;
  without an abort it leaves them as the last step left them. So a session that was opened
  is closed, or one abort is attempted for it, which closes it if that call returns. The
  calls that the collaborators receive are exactly the calls recorded.
\<close>

theorem cleanup_discipline:
  "let left = snd (snd (session_steps c ''Comparison: '' e r));
       r' = snd (performEyesComparison c e r);
       cs = new_calls r r';
       unclosed = ((EyesOpen (''Comparison: '' @ name e), True) \<in> set cs \<and> (EyesClose, True) \<notin> set cs)
   in aborts cs = (if unclosed then 1 else 0)
    \<and> cs = new_calls r left
            @ (if unclosed then [(AbortIfNotClosed, fst (abortIfNotClosed c (world left)) = None)] else [])
    \<and> world r' = (if unclosed then snd (abortIfNotClosed c (world left)) else world left)
    \<and> ((EyesClose, True) \<in> set cs \<longleftrightarrow> isOK (fst (session_steps c ''Comparison: '' e r)))
    \<and> ((EyesOpen t, True) \<in> set cs \<and> (EyesClose, True) \<notin> set cs \<longrightarrow> aborts cs = 1)
    \<and> ((EyesClose, True) \<in> set cs \<longrightarrow> aborts cs = 0 \<and> world r' = world left)
    \<and> ((EyesOpen t, True) \<in> set cs \<longrightarrow>
          (EyesClose, True) \<in> set cs
          \<or> (AbortIfNotClosed, fst (abortIfNotClosed c (world left)) = None) \<in> set cs)
    \<and> snd (world (snd (performEyesComparison (spy c) e q)))
        = snd (world q) @ new_calls q (snd (performEyesComparison (spy c) e q))"
proof -
  let ?C = "''Comparison: '' @ name e"
  let ?S = "session_steps c ''Comparison: '' e r"
  let ?left = "snd (snd ?S)"
  let ?opened = "fst (snd ?S)"
  let ?cs = "new_calls r (snd (performEyesComparison c e r))"
  let ?ab = "(AbortIfNotClosed, fst (abortIfNotClosed c (world ?left)) = None)"
  obtain ss where ss:
    "calls ?left = calls r @ ss \<and> summary ?left = summary r
        \<and> (\<forall>b. (AbortIfNotClosed, b) \<notin> set ss)
        \<and> (?opened \<longleftrightarrow> (EyesOpen ?C, True) \<in> set ss \<and> (EyesClose, True) \<notin> set ss)
        \<and> (isOK (fst ?S) \<longleftrightarrow> (EyesClose, True) \<in> set ss)
        \<and> (\<forall>t. t \<noteq> ?C \<longrightarrow> (EyesOpen t, True) \<notin> set ss)"
    using session_steps_calls[of c "''Comparison: ''" e r "fst ?S" ?opened ?left] by auto
  have nl: "new_calls r ?left = ss" using ss by (simp add: new_calls_def)
  have sp: "?cs = ss @ (if ?opened then [?ab] else [])"
    using perform_calls_split[of r c e] by (simp add: nl)
  have mo: "(EyesOpen u, True) \<in> set ?cs \<longleftrightarrow> (EyesOpen u, True) \<in> set ss" for u
    by (simp add: sp)
  have mc: "(EyesClose, True) \<in> set ?cs \<longleftrightarrow> (EyesClose, True) \<in> set ss"
    by (simp add: sp)
  have un: "((EyesOpen ?C, True) \<in> set ?cs \<and> (EyesClose, True) \<notin> set ?cs) \<longleftrightarrow> ?opened"
    using ss unfolding mo mc by blast
  have z: "aborts ss = 0" using ss by (intro aborts_none) blast
  have ab: "aborts ?cs = (if ?opened then 1 else 0)"
    by (simp add: sp aborts_append z) (simp add: aborts_def)
  have tC: "(EyesOpen ?C, True) \<in> set ss" if "(EyesOpen t, True) \<in> set ss"
    using ss that by (cases "t = ?C") auto
  have w: "world (snd (performEyesComparison c e r))
      = (if ?opened then snd (abortIfNotClosed c (world ?left)) else world ?left)"
    by (rule perform_world_after)
  have c1: "aborts ?cs = (if (EyesOpen ?C, True) \<in> set ?cs \<and> (EyesClose, True) \<notin> set ?cs then 1 else 0)"
    by (simp only: un ab)
  have c2: "?cs = new_calls r ?left
       @ (if (EyesOpen ?C, True) \<in> set ?cs \<and> (EyesClose, True) \<notin> set ?cs then [?ab] else [])"
    unfolding un by (simp only: nl sp)
  have c3: "world (snd (performEyesComparison c e r))
      = (if (EyesOpen ?C, True) \<in> set ?cs \<and> (EyesClose, True) \<notin> set ?cs
         then snd (abortIfNotClosed c (world ?left)) else world ?left)"
    by (simp only: un w)
  have c4: "(EyesClose, True) \<in> set ?cs \<longleftrightarrow> isOK (fst ?S)"
    using ss unfolding mc by blast
  have c5: "(EyesOpen t, True) \<in> set ?cs \<and> (EyesClose, True) \<notin> set ?cs \<longrightarrow> aborts ?cs = 1"
    using tC un ab unfolding mo mc by auto
  have c6: "(EyesClose, True) \<in> set ?cs \<longrightarrow> aborts ?cs = 0
      \<and> world (snd (performEyesComparison c e r)) = world ?left"
    using un ab w by auto
  have c7: "(EyesOpen t, True) \<in> set ?cs \<longrightarrow>
          (EyesClose, True) \<in> set ?cs \<or> ?ab \<in> set ?cs"
  proof (cases ?opened)
    case True
    then have "?ab \<in> set ?cs" by (simp add: sp)
    then show ?thesis by blast
  next
    case False
    then show ?thesis using tC un unfolding mo mc by blast
  qed
  have c8: "snd (world (snd (performEyesComparison (spy c) e q)))
        = snd (world q) @ new_calls q (snd (performEyesComparison (spy c) e q))"
    by (rule spy_perform)
  show ?thesis
    unfolding Let_def using c1 c2 c3 c4 c5 c6 c7 c8 by blast
qed

theorem cleanup_discipline_witness:
  "aborts (new_calls (initial_run [] False)
       (snd (performEyesComparison (eyes_session True) (entry ''bad'') (initial_run [] False)))) = 1
   \<and> world (snd (snd (session_steps (eyes_session True) ''Comparison: '' (entry ''bad'')
         (initial_run [] False)))) = True
   \<and> world (snd (performEyesComparison (eyes_session True) (entry ''bad'') (initial_run [] False))) = False
   \<and> snd (world (snd (performEyesComparison (spy demo) (entry ''open'') (initial_run [] ('''', [])))))
       = [(EyesOpen ''Comparison: open'', True), (Goto ''open'', True), (WaitForTimeout, True),
          (EyesCheck ''open - Full Page'', True), (EyesClose, False), (AbortIfNotClosed, True)]
   \<and> aborts (new_calls (initial_run [] '''')
         (snd (performEyesComparison demo (entry ''good'') (initial_run [] '''')))) = 0"
proof -
  let ?bad = "new_calls (initial_run [] False)
       (snd (performEyesComparison (eyes_session True) (entry ''bad'') (initial_run [] False)))"
  let ?left = "snd (snd (session_steps (eyes_session True) ''Comparison: '' (entry ''bad'')
         (initial_run [] False)))"
  let ?good = "new_calls (initial_run [] '''')
         (snd (performEyesComparison demo (entry ''good'') (initial_run [] '''')))"
  let ?q = "initial_run [] ('''', []) :: (string \<times> (call \<times> bool) list) run"
  note b = cleanup_discipline [where c = "eyes_session True" and e = "entry ''bad''"
        and r = "initial_run [] False" and t = "''Comparison: bad''" and q = "initial_run [] (True, [])",
        unfolded Let_def]
  note g = cleanup_discipline [where c = demo and e = "entry ''good''"
        and r = "initial_run [] ''''" and t = "''Comparison: good''" and q = ?q,
        unfolded Let_def]
  note o = cleanup_discipline [where c = demo and e = "entry ''open''"
        and r = "initial_run [] ''''" and t = "''Comparison: open''" and q = ?q,
        unfolded Let_def]
  have un: "(EyesOpen (''Comparison: '' @ name (entry ''bad'')), True) \<in> set ?bad
      \<and> (EyesClose, True) \<notin> set ?bad"
    unfolding session_bad_calls by (simp add: entry_def)
  have cl: "\<not> ((EyesOpen (''Comparison: '' @ name (entry ''good'')), True) \<in> set ?good
      \<and> (EyesClose, True) \<notin> set ?good)"
    unfolding demo_good_calls by simp
  have "aborts ?bad
      = (if (EyesOpen (''Comparison: '' @ name (entry ''bad'')), True) \<in> set ?bad
            \<and> (EyesClose, True) \<notin> set ?bad then 1 else 0)"
    using b by blast
  then have w1: "aborts ?bad = 1" using un by simp
  have w2: "world ?left = True" by (rule session_bad_left)
  have "world (snd (performEyesComparison (eyes_session True) (entry ''bad'') (initial_run [] False)))
      = (if (EyesOpen (''Comparison: '' @ name (entry ''bad'')), True) \<in> set ?bad
            \<and> (EyesClose, True) \<notin> set ?bad
         then snd (abortIfNotClosed (eyes_session True) (world ?left)) else world ?left)"
    using b by blast
  then have "world (snd (performEyesComparison (eyes_session True) (entry ''bad'') (initial_run [] False)))
      = snd (abortIfNotClosed (eyes_session True) (world ?left))"
    using un by simp
  then have w3: "world (snd (performEyesComparison (eyes_session True) (entry ''bad'')
      (initial_run [] False))) = False"
    unfolding w2 by (simp add: eyes_session_def)
  have "snd (world (snd (performEyesComparison (spy demo) (entry ''open'') ?q)))
      = snd (world ?q) @ new_calls ?q (snd (performEyesComparison (spy demo) (entry ''open'') ?q))"
    using o by blast
  then have w4: "snd (world (snd (performEyesComparison (spy demo) (entry ''open'') ?q)))
       = [(EyesOpen ''Comparison: open'', True), (Goto ''open'', True), (WaitForTimeout, True),
          (EyesCheck ''open - Full Page'', True), (EyesClose, False), (AbortIfNotClosed, True)]"
    unfolding spy_open_calls by (simp add: initial_run_def)
  have "aborts ?good
      = (if (EyesOpen (''Comparison: '' @ name (entry ''good'')), True) \<in> set ?good
            \<and> (EyesClose, True) \<notin> set ?good then 1 else 0)"
    using g by blast
  then have w5: "aborts ?good = 0" using cl by simp
  from w1 w2 w3 w4 w5 show ?thesis by blast
qed

text \<open>
  C4 as stated fails in its last part: an abort that throws is caught and not repeated, and
  the session that was opened stays open, neither closed nor aborted.
\<close>

theorem dangling_session_counterexample:
  "(EyesOpen ''Comparison: bad'', True)
      \<in> set (new_calls (initial_run [] False)
            (snd (performEyesComparison (eyes_session False) (entry ''bad'') (initial_run [] False))))
   \<and> (EyesClose, True)
      \<notin> set (new_calls (initial_run [] False)
            (snd (performEyesComparison (eyes_session False) (entry ''bad'') (initial_run [] False))))
   \<and> (AbortIfNotClosed, True)
      \<notin> set (new_calls (initial_run [] False)
            (snd (performEyesComparison (eyes_session False) (entry ''bad'') (initial_run [] False))))
   \<and> world (snd (performEyesComparison (eyes_session False) (entry ''bad'') (initial_run [] False)))
       = True"
  by code_simp



text \<open>
  C6. Entry Reader filtering: a row without a non-empty \<^verbatim>\<open>url\<close> or without a non-empty
  \<^verbatim>\<open>name\<close> is skipped and does not fail the read; the rows that have both are kept, in
  file order. A skipped row is not counted by Step 3 in \<^verbatim>\<open>totalUrls\<close> and gives no
  ComparisonResult in Step 4.
\<close>

theorem entry_reader_filtering:
  "readCsvFile (rows, None) = Inr (map row_entry (filter valid_row rows))
   \<and> totalUrls (summary (snd (step3 c True (rows, None) r)))
       = totalUrls (summary r) + int (length (filter valid_row rows))
   \<and> fst (step4 c True (rows, None) r) = None
   \<and> length (eyesResults (summary (snd (step4 c True (rows, None) r))))
       = length (eyesResults (summary r)) + length (filter valid_row rows)"
proof -
  have a: "readCsvFile (rows, None) = Inr (map row_entry (filter valid_row rows))"
    by (rule readCsvFile_end)
  have b: "totalUrls (summary (snd (step3 c True (rows, None) r)))
       = totalUrls (summary r) + int (length (filter valid_row rows))"
    using erase_errors_fields(1)[OF step3_summary[of c True "(rows, None)" r]]
    by (simp add: baseline_count_def a)
  have d: "fst (step4 c True (rows, None) r) = None"
    by (simp add: step4_def a)
  have e: "length (eyesResults (summary (snd (step4 c True (rows, None) r))))
       = length (eyesResults (summary r)) + length (filter valid_row rows)"
    by (simp add: step4_def a loop_length)
  from a b d e show ?thesis by blast
qed

theorem entry_reader_filtering_witness:
  "readCsvFile ([row ''good'', [''url'' \<mapsto> ''lonely''], [''url'' \<mapsto> '''', ''name'' \<mapsto> ''n''], row ''bad''], None)
     = Inr [entry ''good'', entry ''bad'']
   \<and> totalUrls (summary (snd (step3 demo True
        ([row ''good'', [''url'' \<mapsto> ''lonely''], [''url'' \<mapsto> '''', ''name'' \<mapsto> ''n''], row ''bad''], None)
        (initial_run [] '''')))) = 2
   \<and> length (eyesResults (summary (snd (step4 demo True
        ([row ''good'', [''url'' \<mapsto> ''lonely''], [''url'' \<mapsto> '''', ''name'' \<mapsto> ''n''], row ''bad''], None)
        (initial_run [] ''''))))) = 2"
  using entry_reader_filtering [of "[row ''good'', [''url'' \<mapsto> ''lonely''], [''url'' \<mapsto> '''', ''name'' \<mapsto> ''n''], row ''bad'']"
      demo "initial_run [] ''''"]
  by (simp add: valid_row_def row_entry_def row_def entry_def initial_run_def initial_summary_def)

text \<open>
  C7. Success rate: the report line shows \<^verbatim>\<open>toFixed(2)\<close> of succeeded / total * 100, the
  total being the number of comparisons made, and shows \<^verbatim>\<open>0%\<close> when no comparison was
  made; the quotient is not computed then.
\<close>

theorem success_rate_edge_case:
  "(let s = summary (run_steps c apiKey source target (initial_run errs w)) in
      success_rate_line toFixed s
        = ''- **Success Rate**: ''
          @ (if eyesResults s = [] then ''0''
             else toFixed (of_int (successfulComparisons s) / of_int (int (length (eyesResults s))) * 100))
          @ ''%'')
   \<and> success_rate_line toFixed (summary (run_steps c apiKey source ([], None) (initial_run errs w)))
        = ''- **Success Rate**: 0%''
   \<and> success_rate_line toFixed (initial_summary errs) = ''- **Success Rate**: 0%''"
proof -
  let ?s = "summary (run_steps c apiKey source target (initial_run errs w))"
  let ?e = "summary (run_steps c apiKey source ([], None) (initial_run errs w))"
  have t: "totalComparisons ?s = int (length (eyesResults ?s))"
    by (rule consistent_total[OF run_steps_consistent])
  have a: "success_rate_line toFixed ?s
        = ''- **Success Rate**: ''
          @ (if eyesResults ?s = [] then ''0''
             else toFixed (of_int (successfulComparisons ?s) / of_int (int (length (eyesResults ?s))) * 100))
          @ ''%''"
    by (simp add: success_rate_line_def successRate_def t)
  have "eyesResults ?e = eyesResults (summary (snd (step3 c apiKey source (initial_run errs w))))"
    by (simp add: run_steps_def step4_def readCsvFile_def)
  also have "\<dots> = []"
    using erase_errors_fields(7)[OF step3_summary[of c apiKey source "initial_run errs w"]]
    by (simp add: initial_run_def initial_summary_def)
  finally have "totalComparisons ?e = 0"
    using consistent_total[OF run_steps_consistent[of c apiKey source "([], None)" errs w]] by simp
  then have b: "success_rate_line toFixed ?e = ''- **Success Rate**: 0%''"
    by (simp add: success_rate_line_def successRate_def)
  have d: "success_rate_line toFixed (initial_summary errs) = ''- **Success Rate**: 0%''"
    by (simp add: success_rate_line_def successRate_def totalComparisons_def initial_summary_def)
  from a b d show ?thesis by (simp add: Let_def)
qed

theorem success_rate_edge_case_witness:
  "success_rate_line (\<lambda>q. ''?'') (summary (run_steps demo True ([], None) ([], None) (initial_run [] '''')))
        = ''- **Success Rate**: 0%''"
  using success_rate_edge_case [where toFixed = "\<lambda>q. ''?''" and c = demo and apiKey = True
      and source = "([], None)" and target = "([], None)" and errs = "[]" and w = "''''"]
  by simp

text \<open>
  C8 (amended). Accumulation: one comparison adds the matches, mismatches and missing of its
  result to the totals of the summary exactly as they are; the counts of the result are those
  of the verdict, or 0 when there is no verdict. Nothing is clamped.
\<close>

theorem accumulate_adds_counts:
  "let result = fst (performEyesComparison c e r);
       s' = summary (snd (performEyesComparison c e r)) in
     totalMatches s' = totalMatches (summary r) + matches result
   \<and> totalMismatches s' = totalMismatches (summary r) + mismatches result
   \<and> totalMissing s' = totalMissing (summary r) + missing result
   \<and> (case fst (session_steps c ''Comparison: '' e r) of
        Inr (Some tr) \<Rightarrow>
          matches result = getMatches tr \<and> mismatches result = getMismatches tr
          \<and> missing result = getMissing tr
      | Inr None \<Rightarrow> matches result = 0 \<and> mismatches result = 0 \<and> missing result = 0
      | Inl x \<Rightarrow> matches result = 0 \<and> mismatches result = 0 \<and> missing result = 0)"
  using perform_totals[of c e r]
  by (simp add: perform_result fill_result_def initial_result_def Let_def
      split: sum.splits option.splits)

theorem accumulate_adds_counts_witness:
  "matches (fst (performEyesComparison demo (entry ''neg'') (initial_run [] ''''))) = - 1
   \<and> totalMatches (summary (snd (performEyesComparison demo (entry ''neg'') (initial_run [] '''')))) = - 1"
  using accumulate_adds_counts [of demo "entry ''neg''" "initial_run [] ''''"]
  by (simp add: demo_neg_steps Let_def verdict_of_def initial_run_summary initial_summary_def)

text \<open>
  C8 as stated fails: a verdict with \<^verbatim>\<open>getMatches() = -1\<close> lowers \<^verbatim>\<open>totalMatches\<close> to -1,
  where clamping would leave 0.
\<close>

theorem clamping_counterexample:
  "\<not> (totalMatches (summary (snd (performEyesComparison demo (entry ''neg'') (initial_run [] ''''))))
        = totalMatches (summary (initial_run [] ''''))
          + max 0 (getMatches (verdict_of ''Passed'' (- 1))))"
  by code_simp

text \<open>
  C9. Succeeded counter: a comparison with a remote verdict adds one to
  \<^verbatim>\<open>successfulComparisons\<close> exactly when the status is \<^verbatim>\<open>Passed\<close>, and one to
  \<^verbatim>\<open>failedComparisons\<close> for every other status (Unresolved included). Over a run,
  succeeded is the number of results whose status is \<^verbatim>\<open>Passed\<close> and failed is the number
  of results minus succeeded.
\<close>

theorem succeeded_counter_semantics:
  "(let s = summary (run_steps c apiKey source target (initial_run errs w)) in
      successfulComparisons s
        = int (length (filter (\<lambda>result. status result = ''Passed'') (eyesResults s)))
    \<and> failedComparisons s = int (length (eyesResults s)) - successfulComparisons s)
   \<and> (fst (session_steps c ''Comparison: '' e r) = Inr (Some tr) \<longrightarrow>
        (let s' = summary (snd (performEyesComparison c e r)) in
           successfulComparisons s'
             = successfulComparisons (summary r) + (if getStatus tr = ''Passed'' then 1 else 0)
         \<and> failedComparisons s'
             = failedComparisons (summary r) + (if getStatus tr = ''Passed'' then 0 else 1)))"
  using run_steps_consistent[of c apiKey source target errs w]
    perform_verdict_counters[of c e r tr]
  by (simp add: consistent_def Let_def)

theorem succeeded_counter_semantics_witness:
  "fst (session_steps demo ''Comparison: '' (entry ''unres'') (initial_run [] ''''))
     = Inr (Some (verdict_of ''Unresolved'' 0))
   \<and> successfulComparisons (summary (snd (performEyesComparison demo (entry ''unres'') (initial_run [] '''')))) = 0
   \<and> failedComparisons (summary (snd (performEyesComparison demo (entry ''unres'') (initial_run [] '''')))) = 1"
  using succeeded_counter_semantics [of demo True "([], None)" "([], None)" "[]" "''''"
      "entry ''unres''" "initial_run [] ''''" "verdict_of ''Unresolved'' 0"]
    demo_unres_steps
  by (simp add: Let_def verdict_of_def initial_run_def initial_summary_def)

text \<open>
  C10. If every step returns and \<^verbatim>\<open>eyes.close()\<close> gives no results object, the entry is a
  local failure: \<^verbatim>\<open>success\<close> is false, the error message is
  \<^verbatim>\<open>No results returned from Eyes\<close>, \<^verbatim>\<open>failedComparisons\<close> grows by one, and the loop
  pushes the result and goes on with the next entry.
\<close>

theorem null_results_local_failure:
  "fst (session_steps c ''Comparison: '' e r) = Inr None \<longrightarrow>
     (let result = fst (performEyesComparison c e r);
          r' = snd (performEyesComparison c e r) in
        \<not> success result \<and> error result = Some ''No results returned from Eyes''
      \<and> status result = ''Failed'' \<and> matches result = 0 \<and> mismatches result = 0 \<and> missing result = 0
      \<and> failedComparisons (summary r') = failedComparisons (summary r) + 1
      \<and> successfulComparisons (summary r') = successfulComparisons (summary r)
      \<and> errors (summary r') = errors (summary r)
           @ [''Failed Eyes comparison for '' @ url e @ '': Error: No results returned from Eyes'']
      \<and> eyesResults (summary (compare_and_push c e r)) = eyesResults (summary r) @ [result]
      \<and> fold (compare_and_push c) (e # rest) r
           = fold (compare_and_push c) rest (compare_and_push c e r))"
proof
  assume h: "fst (session_steps c ''Comparison: '' e r) = Inr None"
  have res: "fst (performEyesComparison c e r)
      = (initial_result e)\<lparr>error := Some ''No results returned from Eyes'', success := False\<rparr>"
    by (simp add: perform_result h)
  note s = perform_null_summary[OF h]
  show "let result = fst (performEyesComparison c e r);
          r' = snd (performEyesComparison c e r) in
        \<not> success result \<and> error result = Some ''No results returned from Eyes''
      \<and> status result = ''Failed'' \<and> matches result = 0 \<and> mismatches result = 0 \<and> missing result = 0
      \<and> failedComparisons (summary r') = failedComparisons (summary r) + 1
      \<and> successfulComparisons (summary r') = successfulComparisons (summary r)
      \<and> errors (summary r') = errors (summary r)
           @ [''Failed Eyes comparison for '' @ url e @ '': Error: No results returned from Eyes'']
      \<and> eyesResults (summary (compare_and_push c e r)) = eyesResults (summary r) @ [result]
      \<and> fold (compare_and_push c) (e # rest) r
           = fold (compare_and_push c) rest (compare_and_push c e r)"
    by (simp add: Let_def res s initial_result_def compare_and_push_results(1))
qed

theorem null_results_local_failure_witness:
  "fst (session_steps demo ''Comparison: '' (entry ''null'') (initial_run [] '''')) = Inr None
   \<and> error (fst (performEyesComparison demo (entry ''null'') (initial_run [] '''')))
       = Some ''No results returned from Eyes''
   \<and> \<not> success (fst (performEyesComparison demo (entry ''null'') (initial_run [] '''')))
   \<and> failedComparisons (summary (snd (performEyesComparison demo (entry ''null'') (initial_run [] '''')))) = 1"
  using null_results_local_failure [of demo "entry ''null''" "initial_run [] ''''" "[]"]
    demo_null_steps
  by (simp add: Let_def initial_run_summary initial_summary_def)

end
